theory Spec2Isabelle
  imports Main "HOL-Library.AList"
begin

section \<open>Strings\<close>

text \<open>
  A Python \<open>str\<close> is modelled by the list of its UTF-8 bytes, which is what
  \<open>urllib.parse.quote_plus\<close> works on once it has encoded its argument.  A field typed
  \<open>Optional[str]\<close> is a \<open>string option\<close>, with \<open>None\<close> for Python's \<open>None\<close>.
\<close>

text \<open>\<open>sep.join(parts)\<close>\<close>

fun join :: "string \<Rightarrow> string list \<Rightarrow> string" where
  "join sep [] = []"
| "join sep [x] = x"
| "join sep (x # y # ys) = x @ sep @ join sep (y # ys)"

text \<open>\<open>str(n)\<close> for an integer, as the f-string \<open>{self.port}\<close> renders it.\<close>

definition digit_char :: "nat \<Rightarrow> char" where
  "digit_char d = ''0123456789'' ! (d mod 10)"

function str_nat :: "nat \<Rightarrow> string" where
  "str_nat n = (if n < 10 then [digit_char n] else str_nat (n div 10) @ [digit_char (n mod 10)])"
  by pat_completeness auto
termination
  by (relation "measure id") auto

declare str_nat.simps [simp del]

definition str_int :: "int \<Rightarrow> string" where
  "str_int i = (if i < 0 then CHR ''-'' # str_nat (nat (- i)) else str_nat (nat i))"

subsection \<open>\<open>urllib.parse.quote_plus\<close>\<close>

text \<open>
  The standard library's \<open>quote(string, safe)\<close> keeps the bytes of
  \<open>_ALWAYS_SAFE\<close> (letters, digits and \<open>_.-~\<close>) and those of \<open>safe\<close>, and writes every
  other byte as \<open>%XX\<close> with two upper-case hexadecimal digits.  \<open>quote_plus(string)\<close> is
  \<open>quote(string, '')\<close> when the string has no space, and otherwise
  \<open>quote(string, ' ')\<close> with every space replaced by \<open>+\<close>.
\<close>

definition always_safe :: "char \<Rightarrow> bool" where
  "always_safe c \<longleftrightarrow>
     c \<in> set ''ABCDEFGHIJKLMNOPQRSTUVWXYZabcdefghijklmnopqrstuvwxyz0123456789_.-~''"

definition hex_digit :: "nat \<Rightarrow> char" where
  "hex_digit d = ''0123456789ABCDEF'' ! (d mod 16)"

definition percent :: "char \<Rightarrow> string" where
  "percent c = [CHR ''%'', hex_digit (of_char c div 16), hex_digit (of_char c mod 16)]"

definition quote :: "string \<Rightarrow> string \<Rightarrow> string" where
  "quote s safe = concat (map (\<lambda>c. if always_safe c \<or> c \<in> set safe then [c] else percent c) s)"

definition quote_plus :: "string \<Rightarrow> string" where
  "quote_plus s =
     (if CHR '' '' \<notin> set s then quote s []
      else map (\<lambda>c. if c = CHR '' '' then CHR ''+'' else c) (quote s '' ''))"

section \<open>Errors\<close>

text \<open>
  The only exception this code raises itself is the \<open>ValueError\<close> of
  \<open>DatabaseClientFactory.create\<close>.  Everything else comes out of the standard library,
  SQLAlchemy or the database driver and is passed on unchanged: \<open>LibraryError\<close> carries
  the name of its class.
\<close>

datatype error = ValueError string | KeyError | LibraryError string

section \<open>Connection URL builders (\<open>sql/clients.py\<close>)\<close>

text \<open>
  One record per client class, holding the arguments of its \<open>__init__\<close>, each of
  which is stored on \<open>self\<close> under the same name (\<open>echo\<close> by the base class).  The
  field names carry the backend as a prefix, because several classes use the same
  attribute names (\<open>database\<close>, \<open>username\<close>, \<open>password\<close>, \<open>host\<close>, \<open>port\<close>).
\<close>

record SQLServerClient =
  ss_server :: string
  ss_database :: string
  ss_username :: "string option"
  ss_password :: "string option"
  ss_driver :: string
  ss_trusted_connection :: bool
  ss_echo :: bool
  ss_mars_connection :: bool

record PostgreSQLClient =
  pg_host :: string
  pg_database :: string
  pg_username :: string
  pg_password :: string
  pg_port :: int
  pg_echo :: bool
  pg_schema :: string

record MySQLClient =
  my_host :: string
  my_database :: string
  my_username :: string
  my_password :: string
  my_port :: int
  my_echo :: bool
  my_charset :: string

record SQLiteClient =
  lite_database_path :: string
  lite_echo :: bool

record GenericClient =
  gen_url :: string
  gen_echo :: bool

text \<open>
  A Python \<open>dict\<close> keeps insertion order: \<open>d[k] = v\<close> replaces the value in place when
  \<open>k\<close> is present and appends the pair otherwise, which is \<open>AList.update\<close>.
\<close>

type_synonym odbc_params = "(string \<times> string option) list"

text \<open>The dictionary \<open>params\<close> of \<open>SQLServerClient._build_connection_url\<close>.\<close>

definition sqlserver_params :: "SQLServerClient \<Rightarrow> odbc_params" where
  "sqlserver_params self =
     (let params = [(''driver'', Some (ss_driver self)),
                    (''server'', Some (ss_server self)),
                    (''database'', Some (ss_database self))];
          params = (if ss_trusted_connection self
                    then AList.update ''trusted_connection'' (Some ''yes'') params
                    else AList.update ''pwd'' (ss_password self)
                           (AList.update ''uid'' (ss_username self) params));
          params = (if ss_mars_connection self
                    then AList.update ''MultipleActiveResultSets'' (Some ''True'')
                           (AList.update ''Mars_Connection'' (Some ''yes'') params)
                    else params);
          params = AList.update ''TrustServerCertificate'' (Some ''yes'') params;
          params = AList.update ''Connection Timeout'' (Some ''30'') params;
          params = AList.update ''Command Timeout'' (Some ''30'') params
      in params)"

text \<open>
  The comprehension
  \<open>[f"{key}={quote_plus(str(value))}" for key, value in params.items() if value is not None]\<close>.
\<close>

fun connection_parts :: "odbc_params \<Rightarrow> string list" where
  "connection_parts [] = []"
| "connection_parts ((key, None) # ps) = connection_parts ps"
| "connection_parts ((key, Some v) # ps) = (key @ ''='' @ quote_plus v) # connection_parts ps"

definition SQLServerClient_build_connection_url :: "SQLServerClient \<Rightarrow> string" where
  "SQLServerClient_build_connection_url self =
     (let connection_string = join '';'' (connection_parts (sqlserver_params self))
      in ''mssql+pyodbc:///?odbc_connect='' @ quote_plus connection_string)"

definition PostgreSQLClient_build_connection_url :: "PostgreSQLClient \<Rightarrow> string" where
  "PostgreSQLClient_build_connection_url self =
     (let password_encoded = quote_plus (pg_password self)
      in ''postgresql://'' @ pg_username self @ '':'' @ password_encoded
         @ ''@'' @ pg_host self @ '':'' @ str_int (pg_port self) @ ''/'' @ pg_database self)"

definition MySQLClient_build_connection_url :: "MySQLClient \<Rightarrow> string" where
  "MySQLClient_build_connection_url self =
     (let password_encoded = quote_plus (my_password self)
      in ''mysql+pymysql://'' @ my_username self @ '':'' @ password_encoded
         @ ''@'' @ my_host self @ '':'' @ str_int (my_port self) @ ''/'' @ my_database self
         @ ''?charset='' @ my_charset self)"

definition SQLiteClient_build_connection_url :: "SQLiteClient \<Rightarrow> string" where
  "SQLiteClient_build_connection_url self = ''sqlite:///'' @ lite_database_path self"

definition GenericClient_build_connection_url :: "GenericClient \<Rightarrow> string" where
  "GenericClient_build_connection_url self = gen_url self"

subsection \<open>The SQL Server builder on \<open>str\<close> values that need not encode\<close>

text \<open>
  A Python \<open>str\<close> is a sequence of code points (below \<open>0x110000\<close>), and it may hold
  a lone surrogate
  (\<open>U+D800\<close> to \<open>U+DFFF\<close>), as \<open>os.fsdecode\<close> yields for bytes that are not UTF-8.
  \<open>quote_plus\<close> encodes its argument with \<open>encode('utf-8', 'strict')\<close> before it quotes
  the bytes, and that raises \<open>UnicodeEncodeError\<close> on a surrogate.  The builders above
  take every attribute already encoded.  Here the SQL Server builder is given again on
  code points, with the encoding step where the source has it: at each value of
  \<open>params\<close> that is not \<open>None\<close>, from left to right.  Keys, the quoted values and
  the joined connection string are ASCII, so they stay byte strings.
\<close>

type_synonym str = "nat list"

definition ascii :: "string \<Rightarrow> str" where
  "ascii s = map of_char s"

definition is_surrogate :: "nat \<Rightarrow> bool" where
  "is_surrogate cp \<longleftrightarrow> 55296 \<le> cp \<and> cp \<le> 57343"

definition utf8_bytes :: "nat \<Rightarrow> string" where
  "utf8_bytes cp =
     (if cp < 128 then [char_of cp]
      else if cp < 2048 then [char_of (192 + cp div 64), char_of (128 + cp mod 64)]
      else if cp < 65536 then
        [char_of (224 + cp div 4096), char_of (128 + cp div 64 mod 64), char_of (128 + cp mod 64)]
      else
        [char_of (240 + cp div 262144), char_of (128 + cp div 4096 mod 64),
         char_of (128 + cp div 64 mod 64), char_of (128 + cp mod 64)])"

definition utf8 :: "str \<Rightarrow> string" where
  "utf8 s = concat (map utf8_bytes s)"

definition encode_utf8 :: "str \<Rightarrow> error + string" where
  "encode_utf8 s =
     (if list_ex is_surrogate s then Inl (LibraryError ''UnicodeEncodeError'') else Inr (utf8 s))"

definition quote_plus_str :: "str \<Rightarrow> error + string" where
  "quote_plus_str s = (case encode_utf8 s of Inl err \<Rightarrow> Inl err | Inr b \<Rightarrow> Inr (quote_plus b))"

record SQLServerClient_str =
  ssu_server :: str
  ssu_database :: str
  ssu_username :: "str option"
  ssu_password :: "str option"
  ssu_driver :: str
  ssu_trusted_connection :: bool
  ssu_echo :: bool
  ssu_mars_connection :: bool

definition sqlserver_params_str :: "SQLServerClient_str \<Rightarrow> (string \<times> str option) list" where
  "sqlserver_params_str self =
     (let params = [(''driver'', Some (ssu_driver self)),
                    (''server'', Some (ssu_server self)),
                    (''database'', Some (ssu_database self))];
          params = (if ssu_trusted_connection self
                    then AList.update ''trusted_connection'' (Some (ascii ''yes'')) params
                    else AList.update ''pwd'' (ssu_password self)
                           (AList.update ''uid'' (ssu_username self) params));
          params = (if ssu_mars_connection self
                    then AList.update ''MultipleActiveResultSets'' (Some (ascii ''True''))
                           (AList.update ''Mars_Connection'' (Some (ascii ''yes'')) params)
                    else params);
          params = AList.update ''TrustServerCertificate'' (Some (ascii ''yes'')) params;
          params = AList.update ''Connection Timeout'' (Some (ascii ''30'')) params;
          params = AList.update ''Command Timeout'' (Some (ascii ''30'')) params
      in params)"

fun connection_parts_str :: "(string \<times> str option) list \<Rightarrow> error + string list" where
  "connection_parts_str [] = Inr []"
| "connection_parts_str ((key, None) # ps) = connection_parts_str ps"
| "connection_parts_str ((key, Some v) # ps) =
     (case quote_plus_str v of
        Inl err \<Rightarrow> Inl err
      | Inr quoted \<Rightarrow>
          (case connection_parts_str ps of
             Inl err \<Rightarrow> Inl err
           | Inr parts \<Rightarrow> Inr ((key @ ''='' @ quoted) # parts)))"

definition SQLServerClient_str_build_connection_url :: "SQLServerClient_str \<Rightarrow> error + string" where
  "SQLServerClient_str_build_connection_url self =
     (case connection_parts_str (sqlserver_params_str self) of
        Inl err \<Rightarrow> Inl err
      | Inr parts \<Rightarrow>
          (let connection_string = join '';'' parts
           in Inr (''mssql+pyodbc:///?odbc_connect='' @ quote_plus connection_string)))"

text \<open>
  The values that reach \<open>quote_plus\<close>, and the same client with every attribute
  encoded.
\<close>

definition params_encode :: "SQLServerClient_str \<Rightarrow> bool" where
  "params_encode self \<longleftrightarrow>
     list_all (\<lambda>kv. case snd kv of None \<Rightarrow> True | Some v \<Rightarrow> \<not> list_ex is_surrogate v)
       (sqlserver_params_str self)"

definition encoded :: "SQLServerClient_str \<Rightarrow> SQLServerClient" where
  "encoded self =
     \<lparr>ss_server = utf8 (ssu_server self), ss_database = utf8 (ssu_database self),
      ss_username = map_option utf8 (ssu_username self),
      ss_password = map_option utf8 (ssu_password self),
      ss_driver = utf8 (ssu_driver self),
      ss_trusted_connection = ssu_trusted_connection self, ss_echo = ssu_echo self,
      ss_mars_connection = ssu_mars_connection self\<rparr>"

section \<open>Constructing a client (\<open>DatabaseClient.__init__\<close>)\<close>

text \<open>
  \<open>DatabaseClient.__init__\<close> stores \<open>echo\<close>, builds the URL and hands it to
  SQLAlchemy's \<open>create_engine\<close>; \<open>metadata\<close> and \<open>Session\<close> are made from the engine
  and carry nothing else.  \<open>create_engine\<close> belongs to SQLAlchemy: it is a parameter
  here, and it may raise (an unparsable URL, a missing driver module).
\<close>

record ('c, 'e) DatabaseClient =
  attrs :: 'c
  echo :: bool
  engine :: 'e

definition DatabaseClient_init ::
  "(string \<Rightarrow> bool \<Rightarrow> error + 'e) \<Rightarrow> ('c \<Rightarrow> string) \<Rightarrow> 'c \<Rightarrow> bool \<Rightarrow> error + ('c, 'e) DatabaseClient"
where
  "DatabaseClient_init create_engine build_connection_url self echo_arg =
     (let connection_url = build_connection_url self
      in case create_engine connection_url echo_arg of
           Inl err \<Rightarrow> Inl err
         | Inr eng \<Rightarrow> Inr \<lparr>attrs = self, echo = echo_arg, engine = eng\<rparr>)"


definition PostgreSQLClient_init ::
  "(string \<Rightarrow> bool \<Rightarrow> error + 'e) \<Rightarrow> PostgreSQLClient \<Rightarrow> error + (PostgreSQLClient, 'e) DatabaseClient"
where
  "PostgreSQLClient_init create_engine self =
     DatabaseClient_init create_engine PostgreSQLClient_build_connection_url self (pg_echo self)"

definition MySQLClient_init ::
  "(string \<Rightarrow> bool \<Rightarrow> error + 'e) \<Rightarrow> MySQLClient \<Rightarrow> error + (MySQLClient, 'e) DatabaseClient"
where
  "MySQLClient_init create_engine self =
     DatabaseClient_init create_engine MySQLClient_build_connection_url self (my_echo self)"

definition SQLiteClient_init ::
  "(string \<Rightarrow> bool \<Rightarrow> error + 'e) \<Rightarrow> SQLiteClient \<Rightarrow> error + (SQLiteClient, 'e) DatabaseClient"
where
  "SQLiteClient_init create_engine self =
     DatabaseClient_init create_engine SQLiteClient_build_connection_url self (lite_echo self)"

definition GenericClient_init ::
  "(string \<Rightarrow> bool \<Rightarrow> error + 'e) \<Rightarrow> GenericClient \<Rightarrow> error + (GenericClient, 'e) DatabaseClient"
where
  "GenericClient_init create_engine self =
     DatabaseClient_init create_engine GenericClient_build_connection_url self (gen_echo self)"

text \<open>\<open>DatabaseClientFactory.from_url\<close>: no registry is read or written.\<close>

definition from_url ::
  "(string \<Rightarrow> bool \<Rightarrow> error + 'e) \<Rightarrow> string \<Rightarrow> bool \<Rightarrow> error + (GenericClient, 'e) DatabaseClient"
where
  "from_url create_engine url echo_arg =
     GenericClient_init create_engine \<lparr>gen_url = url, gen_echo = echo_arg\<rparr>"

text \<open>
  The four typed backends as one type, with the dispatch of the abstract method
  \<open>_build_connection_url\<close> on the class of \<open>self\<close>.
\<close>

datatype TypedClient =
    SQLServer SQLServerClient
  | PostgreSQL PostgreSQLClient
  | MySQL MySQLClient
  | SQLite SQLiteClient

fun build_connection_url :: "TypedClient \<Rightarrow> string" where
  "build_connection_url (SQLServer self) = SQLServerClient_build_connection_url self"
| "build_connection_url (PostgreSQL self) = PostgreSQLClient_build_connection_url self"
| "build_connection_url (MySQL self) = MySQLClient_build_connection_url self"
| "build_connection_url (SQLite self) = SQLiteClient_build_connection_url self"

text \<open>The same configuration with the logging flag \<open>echo\<close> switched on or off.\<close>

fun with_echo :: "bool \<Rightarrow> TypedClient \<Rightarrow> TypedClient" where
  "with_echo b (SQLServer self) = SQLServer (self\<lparr>ss_echo := b\<rparr>)"
| "with_echo b (PostgreSQL self) = PostgreSQL (self\<lparr>pg_echo := b\<rparr>)"
| "with_echo b (MySQL self) = MySQL (self\<lparr>my_echo := b\<rparr>)"
| "with_echo b (SQLite self) = SQLite (self\<lparr>lite_echo := b\<rparr>)"

section \<open>The factory and its registry (\<open>DatabaseClientFactory\<close>)\<close>

datatype DatabaseType = SQLSERVER | POSTGRESQL | MYSQL | SQLITE

text \<open>The member's \<open>value\<close>, and \<open>str(member)\<close> as an f-string renders it.\<close>

fun DatabaseType_value :: "DatabaseType \<Rightarrow> string" where
  "DatabaseType_value SQLSERVER = ''sqlserver''"
| "DatabaseType_value POSTGRESQL = ''postgresql''"
| "DatabaseType_value MYSQL = ''mysql''"
| "DatabaseType_value SQLITE = ''sqlite''"

fun DatabaseType_str :: "DatabaseType \<Rightarrow> string" where
  "DatabaseType_str SQLSERVER = ''DatabaseType.SQLSERVER''"
| "DatabaseType_str POSTGRESQL = ''DatabaseType.POSTGRESQL''"
| "DatabaseType_str MYSQL = ''DatabaseType.MYSQL''"
| "DatabaseType_str SQLITE = ''DatabaseType.SQLITE''"

text \<open>
  The class attribute \<open>_registry\<close> is a \<open>dict\<close> from \<open>DatabaseType\<close> to a client class.
  A class is used only by calling it with the keyword arguments, so it is modelled by
  its constructor, which returns the client or raises.  The registry is shared mutable
  state: \<open>register\<close> and \<open>create\<close> take it and give it back.
\<close>

type_synonym ('kw, 'cl) registry = "(DatabaseType \<times> ('kw \<Rightarrow> error + 'cl)) list"

definition register ::
  "DatabaseType \<Rightarrow> ('kw \<Rightarrow> error + 'cl) \<Rightarrow> ('kw, 'cl) registry \<Rightarrow> ('kw, 'cl) registry"
where
  "register db_type client_class registry = AList.update db_type client_class registry"

definition create ::
  "('kw, 'cl) registry \<Rightarrow> DatabaseType \<Rightarrow> 'kw \<Rightarrow> (error + 'cl) \<times> ('kw, 'cl) registry"
where
  "create registry db_type kwargs =
     (if db_type \<notin> set (map fst registry)
      then (let available = join '', '' (map (\<lambda>t. DatabaseType_value t) (map fst registry))
            in (Inl (ValueError (''Unknown database type: '' @ DatabaseType_str db_type
                                  @ ''. Available: '' @ available)), registry))
      else (case map_of registry db_type of
              None \<Rightarrow> (Inl KeyError, registry)
            | Some client_class \<Rightarrow> (client_class kwargs, registry)))"

section \<open>Sessions and execution (\<open>DatabaseClient\<close>)\<close>

text \<open>
  Bound values are Python objects; the scalars below are the ones a driver accepts.
  A \<open>Result\<close> is taken with its rows already fetched: the code reads each result
  once, with \<open>fetchone\<close> or \<open>fetchall\<close>, after \<open>execute_query\<close> has returned it.
  Whether the driver still serves the rows of a result whose session is closed is the
  library's matter and is not modelled.  The result of a statement that returns no rows
  (an \<open>INSERT\<close>, a \<open>CREATE TABLE\<close>) is closed when it is made, and \<open>fetchone\<close> and
  \<open>fetchall\<close> raise \<open>ResourceClosedError\<close> on it.
\<close>

datatype scalar = Null | Integer int | Text string | Boolean bool

type_synonym bind_params = "(string \<times> scalar) list"

record Result =
  returns_rows :: bool
  result_keys :: "string list"
  result_rows :: "scalar list list"


definition fetchall :: "Result \<Rightarrow> error + scalar list list" where
  "fetchall result =
     (if \<not> returns_rows result then Inl (LibraryError ''ResourceClosedError'')
      else Inr (result_rows result))"

text \<open>
  What this code asks of SQLAlchemy once the engine exists.  Everything outside the
  program that the calls act on (the database and the connections to it) is one value of
  type \<open>'w\<close>.  \<open>session_execute\<close> runs one statement and returns its result or raises;
  either way it may have changed \<open>'w\<close>.  \<open>session_commit\<close> may raise as well.
  \<open>session_rollback\<close> and \<open>session_close\<close> are \<open>session.rollback()\<close> and
  \<open>session.close()\<close>; what they undo is the library's and the driver's business.
  \<open>dispose\<close> is \<open>Engine.dispose\<close>: it changes the engine and may change \<open>'w\<close>.
  Making a session (\<open>self.Session()\<close>) touches nothing.  \<open>rollback\<close>, \<open>close\<close> and
  \<open>dispose\<close> are taken not to raise.
\<close>

record ('e, 'w) sqlalchemy =
  dispose :: "'e \<Rightarrow> 'w \<Rightarrow> 'e \<times> 'w"
  session_execute :: "'e \<Rightarrow> string \<Rightarrow> bind_params \<Rightarrow> 'w \<Rightarrow> (error + Result) \<times> 'w"
  session_commit :: "'e \<Rightarrow> 'w \<Rightarrow> (error + unit) \<times> 'w"
  session_rollback :: "'e \<Rightarrow> 'w \<Rightarrow> 'w"
  session_close :: "'e \<Rightarrow> 'w \<Rightarrow> 'w"

text \<open>
  \<open>get_session\<close> as a combinator over the body of the \<open>with\<close> block.  A body that
  returns is followed by \<open>commit\<close>; a body or a commit that raises is followed by
  \<open>rollback\<close> and the exception is raised again; \<open>close\<close> runs last on every path.
\<close>

definition get_session ::
  "('e, 'w) sqlalchemy \<Rightarrow> ('c, 'e) DatabaseClient \<Rightarrow> ('w \<Rightarrow> (error + 'a) \<times> 'w) \<Rightarrow> 'w
     \<Rightarrow> (error + 'a) \<times> 'w"
where
  "get_session lib self body w =
     (case body w of
        (Inr a, w1) \<Rightarrow>
          (case session_commit lib (engine self) w1 of
             (Inr u, w2) \<Rightarrow> (Inr a, session_close lib (engine self) w2)
           | (Inl err, w2) \<Rightarrow>
               (Inl err, session_close lib (engine self) (session_rollback lib (engine self) w2)))
      | (Inl err, w1) \<Rightarrow>
          (Inl err, session_close lib (engine self) (session_rollback lib (engine self) w1)))"

text \<open>\<open>params or {}\<close>: \<open>None\<close> and the empty dictionary both give the empty dictionary.\<close>

definition execute_query ::
  "('e, 'w) sqlalchemy \<Rightarrow> ('c, 'e) DatabaseClient \<Rightarrow> string \<Rightarrow> bind_params option \<Rightarrow> 'w
     \<Rightarrow> (error + Result) \<times> 'w"
where
  "execute_query lib self query params w =
     get_session lib self
       (\<lambda>w0. session_execute lib (engine self) query
                (case params of None \<Rightarrow> [] | Some d \<Rightarrow> d) w0) w"

text \<open>The \<open>for\<close> loop of \<open>execute_many\<close>; the first statement that raises ends it.\<close>

fun execute_each ::
  "('e, 'w) sqlalchemy \<Rightarrow> 'e \<Rightarrow> string \<Rightarrow> bind_params list \<Rightarrow> 'w \<Rightarrow> (error + unit) \<times> 'w"
where
  "execute_each lib eng query [] w = (Inr (), w)"
| "execute_each lib eng query (params # params_list) w =
     (case session_execute lib eng query params w of
        (Inl err, w1) \<Rightarrow> (Inl err, w1)
      | (Inr result, w1) \<Rightarrow> execute_each lib eng query params_list w1)"

definition execute_many ::
  "('e, 'w) sqlalchemy \<Rightarrow> ('c, 'e) DatabaseClient \<Rightarrow> string \<Rightarrow> bind_params list \<Rightarrow> 'w
     \<Rightarrow> (error + unit) \<times> 'w"
where
  "execute_many lib self query params_list w =
     get_session lib self (execute_each lib (engine self) query params_list) w"

definition close ::
  "('e, 'w) sqlalchemy \<Rightarrow> ('c, 'e) DatabaseClient \<Rightarrow> 'w \<Rightarrow> ('c, 'e) DatabaseClient \<times> 'w"
where
  "close lib self w =
     (case dispose lib (engine self) w of (eng, w1) \<Rightarrow> (self\<lparr>engine := eng\<rparr>, w1))"

text \<open>
  A statement is transactional from a state \<open>w\<close> when, whatever parameter sets it has
  been run with since \<open>w\<close>, rolling the session back and closing it gives \<open>w\<close> again.
\<close>

definition transactional :: "('e, 'w) sqlalchemy \<Rightarrow> 'e \<Rightarrow> string \<Rightarrow> 'w \<Rightarrow> bool" where
  "transactional lib eng query w \<longleftrightarrow>
     (\<forall>params_list.
        session_close lib eng
          (session_rollback lib eng (snd (execute_each lib eng query params_list w))) = w)"

subsection \<open>Calls on one client, one after the other\<close>

text \<open>
  The methods of a typed client as calls on the object and the world, each returning
  what the method returns.  \<open>_build_connection_url\<close> reads attributes of \<open>self\<close> and
  assigns nothing.
\<close>

datatype call =
    BuildConnectionUrl
  | ExecuteQuery string "bind_params option"
  | ExecuteMany string "bind_params list"
  | Close

datatype returned =
    Url string
  | QueryResult "error + Result"
  | ManyResult "error + unit"
  | Nothing

fun call_method ::
  "('e, 'w) sqlalchemy \<Rightarrow> call \<Rightarrow> (TypedClient, 'e) DatabaseClient \<times> 'w
     \<Rightarrow> returned \<times> ((TypedClient, 'e) DatabaseClient \<times> 'w)"
where
  "call_method lib BuildConnectionUrl (self, w) =
     (Url (build_connection_url (attrs self)), (self, w))"
| "call_method lib (ExecuteQuery query params) (self, w) =
     (case execute_query lib self query params w of (r, w1) \<Rightarrow> (QueryResult r, (self, w1)))"
| "call_method lib (ExecuteMany query params_list) (self, w) =
     (case execute_many lib self query params_list w of (r, w1) \<Rightarrow> (ManyResult r, (self, w1)))"
| "call_method lib Close (self, w) =
     (case close lib self w of (self1, w1) \<Rightarrow> (Nothing, (self1, w1)))"

fun call_methods ::
  "('e, 'w) sqlalchemy \<Rightarrow> call list \<Rightarrow> (TypedClient, 'e) DatabaseClient \<times> 'w
     \<Rightarrow> returned list \<times> ((TypedClient, 'e) DatabaseClient \<times> 'w)"
where
  "call_methods lib [] st = ([], st)"
| "call_methods lib (c # cs) st =
     (case call_method lib c st of
        (r, st1) \<Rightarrow> (case call_methods lib cs st1 of (rs, st2) \<Rightarrow> (r # rs, st2)))"

section \<open>The explorer (\<open>sql/explorer.py\<close>)\<close>






section \<open>A small backend to run the model on\<close>

text \<open>
  SQLite under its Python driver, cut down to one table \<open>t\<close> with an integer primary key
  \<open>id\<close> and to the four statements below with integer parameters.  \<open>stored\<close> is what
  is committed: \<open>None\<close> while the table does not exist, else its ids in insertion order.
  \<open>current\<close> is what the open connection sees.  An \<open>INSERT\<close> changes \<open>current\<close> alone
  until the commit.  \<open>CREATE TABLE\<close> is not transactional under this driver: it is
  committed as it runs, and a rollback does not take it back.  Returning a connection to
  the pool rolls it back.

  A database file outlives its connections.  The database of \<open>sqlite:///:memory:\<close>
  lives in its connection: \<open>Engine.dispose\<close> closes the connection and the next one
  starts on an empty database.
\<close>

record Engine =
  engine_url :: string
  engine_echo :: bool
  idle_connections :: nat

record table_world =
  stored :: "int list option"
  current :: "int list option"

definition no_rows :: Result where
  "no_rows = \<lparr>returns_rows = False, result_keys = [], result_rows = []\<rparr>"

definition table_execute ::
  "Engine \<Rightarrow> string \<Rightarrow> bind_params \<Rightarrow> table_world \<Rightarrow> (error + Result) \<times> table_world"
where
  "table_execute eng query params w =
     (if query = ''CREATE TABLE t (id INTEGER PRIMARY KEY)'' then
        (case current w of
           Some ids \<Rightarrow> (Inl (LibraryError ''OperationalError''), w)
         | None \<Rightarrow> (Inr no_rows, \<lparr>stored = Some [], current = Some []\<rparr>))
      else case current w of
        None \<Rightarrow> (Inl (LibraryError ''OperationalError''), w)
      | Some ids \<Rightarrow>
          if query = ''INSERT INTO t (id) VALUES (:id)'' then
            (case map_of params ''id'' of
               Some (Integer n) \<Rightarrow>
                 if n \<in> set ids then (Inl (LibraryError ''IntegrityError''), w)
                 else (Inr no_rows, w\<lparr>current := Some (ids @ [n])\<rparr>)
             | _ \<Rightarrow> (Inl (LibraryError ''StatementError''), w))
          else if query = ''SELECT 1 FROM t WHERE id = :value LIMIT 1'' then
            (case map_of params ''value'' of
               Some (Integer n) \<Rightarrow>
                 (Inr \<lparr>returns_rows = True, result_keys = [''1''],
                       result_rows = (if n \<in> set ids then [[Integer 1]] else [])\<rparr>, w)
             | _ \<Rightarrow> (Inl (LibraryError ''StatementError''), w))
          else if query = ''SELECT * FROM t WHERE id = :id_value'' then
            (case map_of params ''id_value'' of
               Some (Integer n) \<Rightarrow>
                 (Inr \<lparr>returns_rows = True, result_keys = [''id''],
                       result_rows = (if n \<in> set ids then [[Integer n]] else [])\<rparr>, w)
             | _ \<Rightarrow> (Inl (LibraryError ''StatementError''), w))
          else (Inl (LibraryError ''OperationalError''), w))"

definition table_dispose :: "Engine \<Rightarrow> table_world \<Rightarrow> Engine \<times> table_world" where
  "table_dispose eng w =
     (eng\<lparr>idle_connections := 0\<rparr>,
      if engine_url eng = ''sqlite:///:memory:'' then \<lparr>stored = None, current = None\<rparr> else w)"

definition table_lib :: "(Engine, table_world) sqlalchemy" where
  "table_lib =
     \<lparr>dispose = table_dispose,
      session_execute = table_execute,
      session_commit = (\<lambda>eng w. (Inr (), w\<lparr>stored := current w\<rparr>)),
      session_rollback = (\<lambda>eng w. w\<lparr>current := stored w\<rparr>),
      session_close = (\<lambda>eng w. w\<lparr>current := stored w\<rparr>)\<rparr>"

text \<open>\<open>create_engine\<close> opens no connection: the pool starts empty.\<close>

definition lazy_create_engine :: "string \<Rightarrow> bool \<Rightarrow> error + Engine" where
  "lazy_create_engine url echo_arg =
     Inr \<lparr>engine_url = url, engine_echo = echo_arg, idle_connections = 0\<rparr>"

text \<open>
  \<open>create_engine\<close> cut down to the plain dialect name \<open>sqlite\<close>.  A URL must begin
  with a name of letters, digits, \<open>_\<close> and \<open>+\<close> followed by \<open>://\<close>; a string that does
  not is refused with \<open>ArgumentError\<close>, and every name other than \<open>sqlite\<close> is
  answered as a dialect that is not found.
\<close>

definition name_char :: "char \<Rightarrow> bool" where
  "name_char c \<longleftrightarrow>
     c \<in> set ''ABCDEFGHIJKLMNOPQRSTUVWXYZabcdefghijklmnopqrstuvwxyz0123456789_+''"

definition sqlite_create_engine :: "string \<Rightarrow> bool \<Rightarrow> error + Engine" where
  "sqlite_create_engine url echo_arg =
     (let name = takeWhile name_char url; rest = dropWhile name_char url
      in if name = [] \<or> take 3 rest \<noteq> ''://'' then Inl (LibraryError ''ArgumentError'')
         else if name \<noteq> ''sqlite'' then Inl (LibraryError ''NoSuchModuleError'')
         else Inr \<lparr>engine_url = url, engine_echo = echo_arg, idle_connections = 0\<rparr>)"

text \<open>A client on a database file, and one on the in-memory database.\<close>

definition file_client :: "(SQLiteClient, Engine) DatabaseClient" where
  "file_client =
     \<lparr>attrs = \<lparr>lite_database_path = ''app.db'', lite_echo = False\<rparr>,
      echo = False,
      engine = \<lparr>engine_url = ''sqlite:///app.db'', engine_echo = False, idle_connections = 1\<rparr>\<rparr>"

definition memory_client :: "(SQLiteClient, Engine) DatabaseClient" where
  "memory_client =
     \<lparr>attrs = \<lparr>lite_database_path = '':memory:'', lite_echo = False\<rparr>,
      echo = False,
      engine = \<lparr>engine_url = ''sqlite:///:memory:'', engine_echo = False, idle_connections = 1\<rparr>\<rparr>"

text \<open>
  The file client as a typed client, and the same configuration with \<open>echo\<close> on and
  a fresh engine.
\<close>

definition typed_file_client :: "(TypedClient, Engine) DatabaseClient" where
  "typed_file_client =
     \<lparr>attrs = SQLite \<lparr>lite_database_path = ''app.db'', lite_echo = False\<rparr>,
      echo = False,
      engine = \<lparr>engine_url = ''sqlite:///app.db'', engine_echo = False, idle_connections = 1\<rparr>\<rparr>"

definition typed_file_client_echo :: "(TypedClient, Engine) DatabaseClient" where
  "typed_file_client_echo =
     \<lparr>attrs = SQLite \<lparr>lite_database_path = ''app.db'', lite_echo = True\<rparr>,
      echo = True,
      engine = \<lparr>engine_url = ''sqlite:///app.db'', engine_echo = True, idle_connections = 0\<rparr>\<rparr>"

text \<open>The same backend when the commit cannot be written (the disk is full).\<close>

definition full_disk_lib :: "(Engine, table_world) sqlalchemy" where
  "full_disk_lib =
     table_lib\<lparr>session_commit := (\<lambda>eng w. (Inl (LibraryError ''OperationalError''), w))\<rparr>"

text \<open>The table with ids 1 and 2 committed, and the database before the table is made.\<close>

definition two_rows :: table_world where
  "two_rows = \<lparr>stored = Some [1, 2], current = Some [1, 2]\<rparr>"

definition no_table :: table_world where
  "no_table = \<lparr>stored = None, current = None\<rparr>"

definition empty_table :: table_world where
  "empty_table = \<lparr>stored = Some [], current = Some []\<rparr>"

text \<open>A client class that is built from a URL alone, to fill a registry with.\<close>

definition url_client_class :: "string \<Rightarrow> error + (GenericClient, Engine) DatabaseClient" where
  "url_client_class url = from_url lazy_create_engine url False"

text \<open>SQL Server authentication selected, and no username given.\<close>

definition sa_without_username :: SQLServerClient where
  "sa_without_username =
     \<lparr>ss_server = ''localhost'', ss_database = ''mydb'', ss_username = None,
      ss_password = Some ''secret'', ss_driver = ''ODBC Driver 17 for SQL Server'',
      ss_trusted_connection = False, ss_echo = False, ss_mars_connection = True\<rparr>"

text \<open>
  The same client on code points, and one whose password is
  \<open>os.fsdecode(b"pw\xff")\<close>: \<open>p\<close>, \<open>w\<close> and the lone surrogate \<open>U+DCFF\<close>.
\<close>

definition sa_str :: SQLServerClient_str where
  "sa_str =
     \<lparr>ssu_server = ascii ''localhost'', ssu_database = ascii ''mydb'', ssu_username = None,
      ssu_password = Some (ascii ''secret''),
      ssu_driver = ascii ''ODBC Driver 17 for SQL Server'',
      ssu_trusted_connection = False, ssu_echo = False, ssu_mars_connection = True\<rparr>"

definition sa_surrogate_password :: SQLServerClient_str where
  "sa_surrogate_password =
     \<lparr>ssu_server = ascii ''localhost'', ssu_database = ascii ''mydb'',
      ssu_username = Some (ascii ''sa''), ssu_password = Some [112, 119, 56575],
      ssu_driver = ascii ''ODBC Driver 17 for SQL Server'',
      ssu_trusted_connection = False, ssu_echo = False, ssu_mars_connection = True\<rparr>"

section \<open>Properties of the URL builders\<close>

lemma sqlserver_params_closed:
  "sqlserver_params self =
     [(''driver'', Some (ss_driver self)), (''server'', Some (ss_server self)),
      (''database'', Some (ss_database self))]
     @ (if ss_trusted_connection self then [(''trusted_connection'', Some ''yes'')]
        else [(''uid'', ss_username self), (''pwd'', ss_password self)])
     @ (if ss_mars_connection self
        then [(''Mars_Connection'', Some ''yes''), (''MultipleActiveResultSets'', Some ''True'')]
        else [])
     @ [(''TrustServerCertificate'', Some ''yes''), (''Connection Timeout'', Some ''30''),
        (''Command Timeout'', Some ''30'')]"
  by (simp add: sqlserver_params_def Let_def)

lemma quote_plus_yes: "quote_plus ''yes'' = ''yes''"
  by code_simp

lemma quote_plus_True: "quote_plus ''True'' = ''True''"
  by code_simp

lemma quote_plus_30: "quote_plus ''30'' = ''30''"
  by code_simp

lemma connection_parts_closed:
  "connection_parts (sqlserver_params self) =
     [''driver='' @ quote_plus (ss_driver self), ''server='' @ quote_plus (ss_server self),
      ''database='' @ quote_plus (ss_database self)]
     @ (if ss_trusted_connection self then [''trusted_connection=yes'']
        else (case ss_username self of None \<Rightarrow> [] | Some u \<Rightarrow> [''uid='' @ quote_plus u])
           @ (case ss_password self of None \<Rightarrow> [] | Some p \<Rightarrow> [''pwd='' @ quote_plus p]))
     @ (if ss_mars_connection self
        then [''Mars_Connection=yes'', ''MultipleActiveResultSets=True''] else [])
     @ [''TrustServerCertificate=yes'', ''Connection Timeout=30'', ''Command Timeout=30'']"
  by (simp add: sqlserver_params_closed quote_plus_yes quote_plus_True quote_plus_30
        split: option.splits)

lemma sa_without_username_url:
  "SQLServerClient_build_connection_url sa_without_username =
     ''mssql+pyodbc:///?odbc_connect=driver%3DODBC%2BDriver%2B17%2Bfor%2BSQL%2BServer%3Bserver%3Dlocalhost%3Bdatabase%3Dmydb%3Bpwd%3Dsecret%3BMars_Connection%3Dyes%3BMultipleActiveResultSets%3DTrue%3BTrustServerCertificate%3Dyes%3BConnection+Timeout%3D30%3BCommand+Timeout%3D30''"
  by code_simp

lemma quote_plus_example: "quote_plus ''p@ss'' = ''p%40ss''"
  by (simp add: quote_plus_def quote_def always_safe_def percent_def hex_digit_def)

lemma str_int_5432: "str_int 5432 = ''5432''"
  by (simp add: str_int_def str_nat.simps digit_char_def)

lemma str_int_3306: "str_int 3306 = ''3306''"
  by (simp add: str_int_def str_nat.simps digit_char_def)




text \<open>
  C3.  The PostgreSQL and MySQL builders pass only the password through
  \<open>quote_plus\<close>.  A username with \<open>@\<close> in it is embedded as it is, next to a
  password whose \<open>@\<close> has become \<open>%40\<close>.
\<close>

theorem username_embedded_unencoded:
  "PostgreSQLClient_build_connection_url
     \<lparr>pg_host = ''db.example.com'', pg_database = ''mydb'', pg_username = ''ops@corp'',
      pg_password = ''p@ss'', pg_port = 5432, pg_echo = False, pg_schema = ''public''\<rparr>
   = ''postgresql://ops@corp:p%40ss@db.example.com:5432/mydb''
   \<and> MySQLClient_build_connection_url
     \<lparr>my_host = ''db.example.com'', my_database = ''mydb'', my_username = ''ops@corp'',
      my_password = ''p@ss'', my_port = 3306, my_echo = False, my_charset = ''utf8mb4''\<rparr>
   = ''mysql+pymysql://ops@corp:p%40ss@db.example.com:3306/mydb?charset=utf8mb4''"
  by (simp add: PostgreSQLClient_build_connection_url_def MySQLClient_build_connection_url_def
        quote_plus_example str_int_5432 str_int_3306)

subsection \<open>The SQL Server builder on code points\<close>

lemma sqlserver_params_str_closed:
  "sqlserver_params_str self =
     [(''driver'', Some (ssu_driver self)), (''server'', Some (ssu_server self)),
      (''database'', Some (ssu_database self))]
     @ (if ssu_trusted_connection self then [(''trusted_connection'', Some (ascii ''yes''))]
        else [(''uid'', ssu_username self), (''pwd'', ssu_password self)])
     @ (if ssu_mars_connection self
        then [(''Mars_Connection'', Some (ascii ''yes'')),
              (''MultipleActiveResultSets'', Some (ascii ''True''))]
        else [])
     @ [(''TrustServerCertificate'', Some (ascii ''yes'')),
        (''Connection Timeout'', Some (ascii ''30'')),
        (''Command Timeout'', Some (ascii ''30''))]"
  by (simp add: sqlserver_params_str_def Let_def)

lemma utf8_ascii_yes: "utf8 (ascii ''yes'') = ''yes''"
  by code_simp

lemma utf8_ascii_True: "utf8 (ascii ''True'') = ''True''"
  by code_simp

lemma utf8_ascii_30: "utf8 (ascii ''30'') = ''30''"
  by code_simp


lemma connection_parts_str_cases:
  "connection_parts_str ps =
     (if list_all (\<lambda>kv. case snd kv of None \<Rightarrow> True | Some v \<Rightarrow> \<not> list_ex is_surrogate v) ps
      then Inr (connection_parts (map (\<lambda>kv. (fst kv, map_option utf8 (snd kv))) ps))
      else Inl (LibraryError ''UnicodeEncodeError''))"
  by (induction ps rule: connection_parts_str.induct)
     (simp_all add: quote_plus_str_def encode_utf8_def)

lemma encoded_params:
  "map (\<lambda>kv. (fst kv, map_option utf8 (snd kv))) (sqlserver_params_str self)
     = sqlserver_params (encoded self)"
  by (simp add: sqlserver_params_str_closed sqlserver_params_closed encoded_def
        utf8_ascii_yes utf8_ascii_True utf8_ascii_30)

lemma build_str_cases:
  "SQLServerClient_str_build_connection_url self =
     (if params_encode self then Inr (SQLServerClient_build_connection_url (encoded self))
      else Inl (LibraryError ''UnicodeEncodeError''))"
  by (simp add: SQLServerClient_str_build_connection_url_def params_encode_def
        connection_parts_str_cases encoded_params SQLServerClient_build_connection_url_def)


lemma sqlserver_url_closed:
  "SQLServerClient_build_connection_url self =
     ''mssql+pyodbc:///?odbc_connect='' @ quote_plus (join '';''
       ([''driver='' @ quote_plus (ss_driver self), ''server='' @ quote_plus (ss_server self),
         ''database='' @ quote_plus (ss_database self)]
        @ (if ss_trusted_connection self then [''trusted_connection=yes'']
           else (case ss_username self of None \<Rightarrow> [] | Some u \<Rightarrow> [''uid='' @ quote_plus u])
              @ (case ss_password self of None \<Rightarrow> [] | Some p \<Rightarrow> [''pwd='' @ quote_plus p]))
        @ (if ss_mars_connection self
           then [''Mars_Connection=yes'', ''MultipleActiveResultSets=True''] else [])
        @ [''TrustServerCertificate=yes'', ''Connection Timeout=30'', ''Command Timeout=30'']))"
  unfolding SQLServerClient_build_connection_url_def Let_def connection_parts_closed ..

lemma encoded_sel:
  "ss_driver (encoded self) = utf8 (ssu_driver self)"
  "ss_server (encoded self) = utf8 (ssu_server self)"
  "ss_database (encoded self) = utf8 (ssu_database self)"
  "ss_username (encoded self) = map_option utf8 (ssu_username self)"
  "ss_password (encoded self) = map_option utf8 (ssu_password self)"
  "ss_trusted_connection (encoded self) = ssu_trusted_connection self"
  "ss_mars_connection (encoded self) = ssu_mars_connection self"
  by (simp_all add: encoded_def)

lemma case_map_option:
  "(case map_option f x of None \<Rightarrow> a | Some y \<Rightarrow> g y) = (case x of None \<Rightarrow> a | Some y \<Rightarrow> g (f y))"
  by (cases x) simp_all

lemma utf8_bytes_of_char:
  "of_char c < (128::nat) \<Longrightarrow> utf8_bytes (of_char c) = [c]"
  by (simp add: utf8_bytes_def)

lemma utf8_ascii:
  "list_all (\<lambda>c. of_char c < (128::nat)) s \<Longrightarrow> utf8 (ascii s) = s"
  by (induction s) (simp_all add: utf8_def ascii_def utf8_bytes_of_char)

lemma ascii_no_surrogate: "\<not> list_ex is_surrogate (ascii s)"
proof -
  have "\<not> is_surrogate (of_char c)" for c :: char
  proof -
    have "of_char c < (256::nat)"
      by (rule nat_of_char_less_256)
    then show ?thesis
      unfolding is_surrogate_def by linarith
  qed
  then show ?thesis
    by (simp add: list_ex_iff ascii_def)
qed


lemma sa_str_encodes: "params_encode sa_str"
  by (simp add: params_encode_def sqlserver_params_str_closed sa_str_def ascii_no_surrogate)

lemma sa_surrogate_not_encodes: "\<not> params_encode sa_surrogate_password"
  by (simp add: params_encode_def sqlserver_params_str_closed sa_surrogate_password_def
        ascii_no_surrogate is_surrogate_def)

lemma utf8_localhost: "utf8 (ascii ''localhost'') = ''localhost''"
  by (rule utf8_ascii) simp

lemma utf8_mydb: "utf8 (ascii ''mydb'') = ''mydb''"
  by (rule utf8_ascii) simp

lemma utf8_secret: "utf8 (ascii ''secret'') = ''secret''"
  by (rule utf8_ascii) simp

lemma utf8_driver: "utf8 (ascii ''ODBC Driver 17 for SQL Server'') = ''ODBC Driver 17 for SQL Server''"
  by (rule utf8_ascii) simp

lemma encoded_sa_str: "encoded sa_str = sa_without_username"
  unfolding encoded_def sa_str_def sa_without_username_def by (simp add: utf8_localhost utf8_mydb utf8_secret utf8_driver)

lemma sa_str_url:
  "SQLServerClient_str_build_connection_url sa_str =
     Inr ''mssql+pyodbc:///?odbc_connect=driver%3DODBC%2BDriver%2B17%2Bfor%2BSQL%2BServer%3Bserver%3Dlocalhost%3Bdatabase%3Dmydb%3Bpwd%3Dsecret%3BMars_Connection%3Dyes%3BMultipleActiveResultSets%3DTrue%3BTrustServerCertificate%3Dyes%3BConnection+Timeout%3D30%3BCommand+Timeout%3D30''"
  by (simp add: build_str_cases sa_str_encodes encoded_sa_str sa_without_username_url)

text \<open>
  C10, as the code has it.  When every value that reaches \<open>quote_plus\<close> encodes (none
  holds a lone surrogate), the SQL Server builder returns the ODBC URL below, for every
  combination of fields; in credentials mode the \<open>uid\<close> and \<open>pwd\<close> entries are
  present exactly when the username and the password are, and an absent one leaves no
  trace in the semicolon-delimited string.  When one of those values does not encode,
  the builder raises \<open>UnicodeEncodeError\<close>.
\<close>

theorem sqlserver_url_on_encodable_values:
  "(params_encode self \<longrightarrow>
      SQLServerClient_str_build_connection_url self =
        Inr (''mssql+pyodbc:///?odbc_connect='' @ quote_plus (join '';''
          ([''driver='' @ quote_plus (utf8 (ssu_driver self)),
            ''server='' @ quote_plus (utf8 (ssu_server self)),
            ''database='' @ quote_plus (utf8 (ssu_database self))]
           @ (if ssu_trusted_connection self then [''trusted_connection=yes'']
              else (case ssu_username self of None \<Rightarrow> []
                    | Some u \<Rightarrow> [''uid='' @ quote_plus (utf8 u)])
                 @ (case ssu_password self of None \<Rightarrow> []
                    | Some p \<Rightarrow> [''pwd='' @ quote_plus (utf8 p)]))
           @ (if ssu_mars_connection self
              then [''Mars_Connection=yes'', ''MultipleActiveResultSets=True''] else [])
           @ [''TrustServerCertificate=yes'', ''Connection Timeout=30'',
              ''Command Timeout=30'']))))
   \<and> (\<not> params_encode self \<longrightarrow>
      SQLServerClient_str_build_connection_url self = Inl (LibraryError ''UnicodeEncodeError''))"
proof -
  have url: "SQLServerClient_build_connection_url (encoded self) =
        ''mssql+pyodbc:///?odbc_connect='' @ quote_plus (join '';''
          ([''driver='' @ quote_plus (utf8 (ssu_driver self)),
            ''server='' @ quote_plus (utf8 (ssu_server self)),
            ''database='' @ quote_plus (utf8 (ssu_database self))]
           @ (if ssu_trusted_connection self then [''trusted_connection=yes'']
              else (case ssu_username self of None \<Rightarrow> []
                    | Some u \<Rightarrow> [''uid='' @ quote_plus (utf8 u)])
                 @ (case ssu_password self of None \<Rightarrow> []
                    | Some p \<Rightarrow> [''pwd='' @ quote_plus (utf8 p)]))
           @ (if ssu_mars_connection self
              then [''Mars_Connection=yes'', ''MultipleActiveResultSets=True''] else [])
           @ [''TrustServerCertificate=yes'', ''Connection Timeout=30'',
              ''Command Timeout=30'']))"
    unfolding sqlserver_url_closed [of "encoded self"] encoded_sel case_map_option ..
  show ?thesis
    unfolding build_str_cases url by simp
qed

theorem sqlserver_url_on_encodable_values_witness:
  "params_encode sa_str
   \<and> SQLServerClient_str_build_connection_url sa_str =
       Inr ''mssql+pyodbc:///?odbc_connect=driver%3DODBC%2BDriver%2B17%2Bfor%2BSQL%2BServer%3Bserver%3Dlocalhost%3Bdatabase%3Dmydb%3Bpwd%3Dsecret%3BMars_Connection%3Dyes%3BMultipleActiveResultSets%3DTrue%3BTrustServerCertificate%3Dyes%3BConnection+Timeout%3D30%3BCommand+Timeout%3D30''
   \<and> \<not> params_encode sa_surrogate_password
   \<and> SQLServerClient_str_build_connection_url sa_surrogate_password
       = Inl (LibraryError ''UnicodeEncodeError'')"
  using sqlserver_url_on_encodable_values [of sa_str]
    sqlserver_url_on_encodable_values [of sa_surrogate_password]
    sa_str_encodes sa_surrogate_not_encodes sa_str_url
  by simp

text \<open>
  The claim itself fails at \<open>sa_surrogate_password\<close>: the builder raises.
\<close>

theorem sqlserver_url_surrogate_raises:
  "SQLServerClient_str_build_connection_url sa_surrogate_password
     = Inl (LibraryError ''UnicodeEncodeError'')"
  by (simp add: build_str_cases sa_surrogate_not_encodes)

subsection \<open>Clients made from a URL\<close>

lemma sqlite_create_engine_file:
  "sqlite_create_engine ''sqlite:///app.db'' False
     = Inr \<lparr>engine_url = ''sqlite:///app.db'', engine_echo = False, idle_connections = 0\<rparr>"
  by (simp add: sqlite_create_engine_def name_char_def Let_def)

lemma sqlite_create_engine_not_a_url:
  "sqlite_create_engine ''not a url'' False = Inl (LibraryError ''ArgumentError'')"
  by (simp add: sqlite_create_engine_def name_char_def Let_def)

text \<open>
  C9, as the code has it.  \<open>from_url\<close> takes no registry.  It makes a
  \<open>GenericClient\<close> whose \<open>url\<close> attribute is the argument and hands that very string
  to \<open>create_engine\<close>.  It raises what \<open>create_engine\<close> raises and returns a client
  when \<open>create_engine\<close> returns an engine, and every client it returns has a builder
  that returns the argument unchanged.
\<close>

theorem from_url_round_trip:
  "from_url create_engine url echo_arg =
     (case create_engine url echo_arg of
        Inl err \<Rightarrow> Inl err
      | Inr eng \<Rightarrow> Inr \<lparr>attrs = \<lparr>gen_url = url, gen_echo = echo_arg\<rparr>,
                         echo = echo_arg, engine = eng\<rparr>)
   \<and> (\<forall>c. from_url create_engine url echo_arg = Inr c
          \<longrightarrow> GenericClient_build_connection_url (attrs c) = url)"
  by (auto simp add: from_url_def GenericClient_init_def DatabaseClient_init_def
        GenericClient_build_connection_url_def split: sum.splits)

theorem from_url_round_trip_witness:
  "from_url sqlite_create_engine ''sqlite:///app.db'' False =
     Inr \<lparr>attrs = \<lparr>gen_url = ''sqlite:///app.db'', gen_echo = False\<rparr>,
          echo = False,
          engine = \<lparr>engine_url = ''sqlite:///app.db'',
                    engine_echo = False, idle_connections = 0\<rparr>\<rparr>
   \<and> GenericClient_build_connection_url
        (attrs \<lparr>attrs = \<lparr>gen_url = ''sqlite:///app.db'', gen_echo = False\<rparr>,
               echo = False,
               engine = \<lparr>engine_url = ''sqlite:///app.db'',
                         engine_echo = False, idle_connections = 0\<rparr>\<rparr>)
      = ''sqlite:///app.db''"
  using from_url_round_trip [of sqlite_create_engine "''sqlite:///app.db''" False]
  by (auto simp add: sqlite_create_engine_file)

text \<open>
  The claim itself fails at a string that is no URL: \<open>create_engine\<close> refuses it and
  \<open>from_url\<close> returns no client.
\<close>

theorem from_url_refused:
  "from_url sqlite_create_engine ''not a url'' False = Inl (LibraryError ''ArgumentError'')"
  by (simp add: from_url_def GenericClient_init_def DatabaseClient_init_def
        GenericClient_build_connection_url_def sqlite_create_engine_not_a_url)

section \<open>Properties of the factory\<close>

text \<open>
  C4.  \<open>create\<close> on a type that is not a key of the registry raises the \<open>ValueError\<close>
  whose message names the type asked for and lists the \<open>value\<close> of every registered
  type, in registration order; the registry comes back as it was.
\<close>

theorem create_unregistered_lists_registered:
  assumes "db_type \<notin> set (map fst registry)"
  shows "create registry db_type kwargs =
           (Inl (ValueError (''Unknown database type: '' @ DatabaseType_str db_type
                   @ ''. Available: ''
                   @ join '', '' (map DatabaseType_value (map fst registry)))),
            registry)"
  using assms by (simp add: create_def)

theorem create_unregistered_lists_registered_witness:
  "MYSQL \<notin> set (map fst (register SQLITE url_client_class
                             (register POSTGRESQL url_client_class [])))
   \<and> create (register SQLITE url_client_class (register POSTGRESQL url_client_class []))
        MYSQL ''mysql://root@localhost/mydb''
      = (Inl (ValueError
           ''Unknown database type: DatabaseType.MYSQL. Available: postgresql, sqlite''),
         register SQLITE url_client_class (register POSTGRESQL url_client_class []))"
  using create_unregistered_lists_registered
          [of MYSQL "register SQLITE url_client_class (register POSTGRESQL url_client_class [])"
              "''mysql://root@localhost/mydb''"]
  by (simp add: register_def)

text \<open>
  C5.  Registering a type twice raises nothing and the second class replaces the first:
  \<open>create\<close> for that type calls the second class, and leaves the registry as the two
  registrations made it, which is what the second registration alone would have made.
\<close>

theorem register_last_write_wins:
  "create (register db_type c2 (register db_type c1 registry)) db_type kwargs
     = (c2 kwargs, register db_type c2 (register db_type c1 registry))
   \<and> register db_type c2 (register db_type c1 registry) = register db_type c2 registry"
  by (simp add: create_def register_def update_conv' dom_update)

section \<open>Properties of execution\<close>

lemma execute_each_append:
  "execute_each lib eng query (xs @ ys) w =
     (case execute_each lib eng query xs w of
        (Inl err, w1) \<Rightarrow> (Inl err, w1)
      | (Inr u, w1) \<Rightarrow> execute_each lib eng query ys w1)"
  by (induction xs arbitrary: w) (simp_all split: sum.splits prod.splits)

lemma execute_each_engine:
  assumes "\<And>params w0. session_execute lib eng1 query params w0
                               = session_execute lib eng query params w0"
  shows "execute_each lib eng1 query params_list w = execute_each lib eng query params_list w"
  by (induction params_list arbitrary: w)
     (simp_all add: assms split: sum.splits prod.splits)

lemma table_lib_sel:
  "session_execute table_lib = table_execute"
  "session_commit table_lib eng w = (Inr (), w\<lparr>stored := current w\<rparr>)"
  "session_rollback table_lib eng w = w\<lparr>current := stored w\<rparr>"
  "session_close table_lib eng w = w\<lparr>current := stored w\<rparr>"
  "dispose table_lib = table_dispose"
  by (simp_all add: table_lib_def)

lemma full_disk_lib_sel:
  "session_execute full_disk_lib = table_execute"
  "session_commit full_disk_lib eng w = (Inl (LibraryError ''OperationalError''), w)"
  "session_rollback full_disk_lib eng w = w\<lparr>current := stored w\<rparr>"
  "session_close full_disk_lib eng w = w\<lparr>current := stored w\<rparr>"
  by (simp_all add: full_disk_lib_def table_lib_def)

lemma table_insert_new:
  "current w = Some ids \<Longrightarrow> n \<notin> set ids \<Longrightarrow>
     table_execute eng ''INSERT INTO t (id) VALUES (:id)'' [(''id'', Integer n)] w
       = (Inr no_rows, w\<lparr>current := Some (ids @ [n])\<rparr>)"
  by (simp add: table_execute_def)

lemma table_insert_dup:
  "current w = Some ids \<Longrightarrow> n \<in> set ids \<Longrightarrow>
     table_execute eng ''INSERT INTO t (id) VALUES (:id)'' [(''id'', Integer n)] w
       = (Inl (LibraryError ''IntegrityError''), w)"
  by (simp add: table_execute_def)

lemma table_select_one:
  "current w = Some ids \<Longrightarrow>
     table_execute eng ''SELECT 1 FROM t WHERE id = :value LIMIT 1'' [(''value'', Integer n)] w
       = (Inr \<lparr>returns_rows = True, result_keys = [''1''],
               result_rows = (if n \<in> set ids then [[Integer 1]] else [])\<rparr>, w)"
  by (simp add: table_execute_def)


lemma table_create:
  "table_execute eng ''CREATE TABLE t (id INTEGER PRIMARY KEY)'' params w
     = (case current w of
          Some ids \<Rightarrow> (Inl (LibraryError ''OperationalError''), w)
        | None \<Rightarrow> (Inr no_rows, \<lparr>stored = Some [], current = Some []\<rparr>))"
  by (simp add: table_execute_def)

lemma table_insert_stored:
  "stored (snd (table_execute eng ''INSERT INTO t (id) VALUES (:id)'' params w)) = stored w"
  by (simp add: table_execute_def split: option.splits scalar.splits)

lemma execute_each_insert_stored:
  "stored (snd (execute_each table_lib eng ''INSERT INTO t (id) VALUES (:id)'' params_list w))
     = stored w"
proof (induction params_list arbitrary: w)
  case Nil
  show ?case by simp
next
  case (Cons params params_list)
  obtain r w1 where s: "table_execute eng ''INSERT INTO t (id) VALUES (:id)'' params w = (r, w1)"
    by (cases "table_execute eng ''INSERT INTO t (id) VALUES (:id)'' params w")
  have w1: "stored w1 = stored w"
    using table_insert_stored [of eng params w] s by simp
  show ?case
  proof (cases r)
    case (Inl err)
    then show ?thesis using s w1 by (simp add: table_lib_sel)
  next
    case (Inr res)
    then show ?thesis using s w1 Cons.IH [of w1] by (simp add: table_lib_sel)
  qed
qed

lemma insert_transactional:
  "current w = stored w \<Longrightarrow>
     transactional table_lib eng ''INSERT INTO t (id) VALUES (:id)'' w"
  unfolding transactional_def
proof
  fix params_list
  assume c: "current w = stored w"
  let ?w1 = "snd (execute_each table_lib eng ''INSERT INTO t (id) VALUES (:id)'' params_list w)"
  have "stored ?w1 = stored w"
    by (rule execute_each_insert_stored)
  then show "session_close table_lib eng (session_rollback table_lib eng ?w1) = w"
    using c by (simp add: table_lib_sel)
qed

lemma world_sel:
  "current empty_table = Some []" "stored empty_table = Some []"
  "current two_rows = Some [1, 2]" "stored two_rows = Some [1, 2]"
  "current no_table = None" "stored no_table = None"
  by (simp_all add: empty_table_def two_rows_def no_table_def)

lemma insert_1_2:
  "execute_each table_lib eng ''INSERT INTO t (id) VALUES (:id)''
     [[(''id'', Integer 1)], [(''id'', Integer 2)]] empty_table
   = (Inr (), \<lparr>stored = Some [], current = Some [1, 2]\<rparr>)"
  by (simp add: table_lib_sel table_insert_new empty_table_def)

lemma insert_1_again:
  "session_execute table_lib eng ''INSERT INTO t (id) VALUES (:id)''
     [(''id'', Integer 1)] \<lparr>stored = Some [], current = Some [1, 2]\<rparr>
   = (Inl (LibraryError ''IntegrityError''), \<lparr>stored = Some [], current = Some [1, 2]\<rparr>)"
  by (simp add: table_lib_sel table_insert_dup)

lemma insert_1_2_1:
  "fst (execute_each table_lib eng ''INSERT INTO t (id) VALUES (:id)''
     [[(''id'', Integer 1)], [(''id'', Integer 2)], [(''id'', Integer 1)]] empty_table)
   = Inl (LibraryError ''IntegrityError'')"
  by (simp add: table_lib_sel table_insert_new table_insert_dup empty_table_def)

lemma insert_1_2_full_disk:
  "execute_each full_disk_lib eng ''INSERT INTO t (id) VALUES (:id)''
     [[(''id'', Integer 1)], [(''id'', Integer 2)]] empty_table
   = (Inr (), \<lparr>stored = Some [], current = Some [1, 2]\<rparr>)"
  by (simp add: full_disk_lib_sel table_insert_new empty_table_def)

text \<open>
  C7, as the code has it.  \<open>execute_many\<close> runs the statement once for each parameter
  set, in order, in the one session that \<open>get_session\<close> opens.  If it raises for some
  set, after the sets before it have run, the later sets are not run, the session is
  rolled back and closed, and that error is raised.  If every execution returns, the
  session is committed once and closed; if that commit raises, the session is rolled
  back and closed and the error is raised.  The database is the one before the call
  whenever the statement is transactional from there, that is, whenever the rollback
  undoes what the executions did.
\<close>

theorem execute_many_one_session:
  "(params_list = done @ params # rest
      \<and> execute_each lib (engine self) query done w = (Inr (), w1)
      \<and> session_execute lib (engine self) query params w1 = (Inl err, w2)
    \<longrightarrow> execute_many lib self query params_list w
          = (Inl err, session_close lib (engine self) (session_rollback lib (engine self) w2)))
   \<and> (execute_each lib (engine self) query params_list w = (Inr (), w1)
      \<and> session_commit lib (engine self) w1 = (Inr (), w2)
    \<longrightarrow> execute_many lib self query params_list w
          = (Inr (), session_close lib (engine self) w2))
   \<and> (execute_each lib (engine self) query params_list w = (Inr (), w1)
      \<and> session_commit lib (engine self) w1 = (Inl err, w2)
    \<longrightarrow> execute_many lib self query params_list w
          = (Inl err, session_close lib (engine self) (session_rollback lib (engine self) w2)))
   \<and> (transactional lib (engine self) query w
      \<and> fst (execute_each lib (engine self) query params_list w) = Inl err
    \<longrightarrow> execute_many lib self query params_list w = (Inl err, w))"
proof (intro conjI impI)
  assume "params_list = done @ params # rest
      \<and> execute_each lib (engine self) query done w = (Inr (), w1)
      \<and> session_execute lib (engine self) query params w1 = (Inl err, w2)"
  then have "execute_each lib (engine self) query params_list w = (Inl err, w2)"
    by (simp add: execute_each_append)
  then show "execute_many lib self query params_list w
          = (Inl err, session_close lib (engine self) (session_rollback lib (engine self) w2))"
    by (simp add: execute_many_def get_session_def)
next
  assume "execute_each lib (engine self) query params_list w = (Inr (), w1)
      \<and> session_commit lib (engine self) w1 = (Inr (), w2)"
  then show "execute_many lib self query params_list w
          = (Inr (), session_close lib (engine self) w2)"
    by (simp add: execute_many_def get_session_def)
next
  assume "execute_each lib (engine self) query params_list w = (Inr (), w1)
      \<and> session_commit lib (engine self) w1 = (Inl err, w2)"
  then show "execute_many lib self query params_list w
          = (Inl err, session_close lib (engine self) (session_rollback lib (engine self) w2))"
    by (simp add: execute_many_def get_session_def)
next
  assume a: "transactional lib (engine self) query w
      \<and> fst (execute_each lib (engine self) query params_list w) = Inl err"
  obtain w3 where e: "execute_each lib (engine self) query params_list w = (Inl err, w3)"
    using a by (cases "execute_each lib (engine self) query params_list w") simp
  have "session_close lib (engine self) (session_rollback lib (engine self) w3) = w"
    using a e unfolding transactional_def by (metis snd_conv)
  then show "execute_many lib self query params_list w = (Inl err, w)"
    using e by (simp add: execute_many_def get_session_def)
qed

theorem execute_many_one_session_witness:
  "[[(''id'', Integer 1)], [(''id'', Integer 2)], [(''id'', Integer 1)]]
      = [[(''id'', Integer 1)], [(''id'', Integer 2)]] @ [(''id'', Integer 1)] # []
   \<and> execute_each table_lib (engine file_client) ''INSERT INTO t (id) VALUES (:id)''
        [[(''id'', Integer 1)], [(''id'', Integer 2)]] empty_table
      = (Inr (), \<lparr>stored = Some [], current = Some [1, 2]\<rparr>)
   \<and> session_execute table_lib (engine file_client) ''INSERT INTO t (id) VALUES (:id)''
        [(''id'', Integer 1)] \<lparr>stored = Some [], current = Some [1, 2]\<rparr>
      = (Inl (LibraryError ''IntegrityError''), \<lparr>stored = Some [], current = Some [1, 2]\<rparr>)
   \<and> execute_many table_lib file_client ''INSERT INTO t (id) VALUES (:id)''
        [[(''id'', Integer 1)], [(''id'', Integer 2)], [(''id'', Integer 1)]] empty_table
      = (Inl (LibraryError ''IntegrityError''), empty_table)
   \<and> session_commit table_lib (engine file_client) \<lparr>stored = Some [], current = Some [1, 2]\<rparr>
      = (Inr (), two_rows)
   \<and> execute_many table_lib file_client ''INSERT INTO t (id) VALUES (:id)''
        [[(''id'', Integer 1)], [(''id'', Integer 2)]] empty_table
      = (Inr (), two_rows)
   \<and> execute_each full_disk_lib (engine file_client) ''INSERT INTO t (id) VALUES (:id)''
        [[(''id'', Integer 1)], [(''id'', Integer 2)]] empty_table
      = (Inr (), \<lparr>stored = Some [], current = Some [1, 2]\<rparr>)
   \<and> session_commit full_disk_lib (engine file_client) \<lparr>stored = Some [], current = Some [1, 2]\<rparr>
      = (Inl (LibraryError ''OperationalError''), \<lparr>stored = Some [], current = Some [1, 2]\<rparr>)
   \<and> execute_many full_disk_lib file_client ''INSERT INTO t (id) VALUES (:id)''
        [[(''id'', Integer 1)], [(''id'', Integer 2)]] empty_table
      = (Inl (LibraryError ''OperationalError''), empty_table)
   \<and> transactional table_lib (engine file_client) ''INSERT INTO t (id) VALUES (:id)'' empty_table
   \<and> fst (execute_each table_lib (engine file_client) ''INSERT INTO t (id) VALUES (:id)''
        [[(''id'', Integer 1)], [(''id'', Integer 2)], [(''id'', Integer 1)]] empty_table)
      = Inl (LibraryError ''IntegrityError'')"
proof -
  let ?q = "''INSERT INTO t (id) VALUES (:id)''"
  let ?e = "engine file_client"
  let ?mid = "\<lparr>stored = Some [], current = Some [1, 2]\<rparr> :: table_world"
  have split: "[[(''id'', Integer 1)], [(''id'', Integer 2)], [(''id'', Integer 1)]]
      = [[(''id'', Integer 1)], [(''id'', Integer 2)]] @ [(''id'', Integer 1)] # []"
    by simp
  have run: "execute_each table_lib ?e ?q [[(''id'', Integer 1)], [(''id'', Integer 2)]] empty_table
      = (Inr (), ?mid)"
    by (rule insert_1_2)
  have dup: "session_execute table_lib ?e ?q [(''id'', Integer 1)] ?mid
      = (Inl (LibraryError ''IntegrityError''), ?mid)"
    by (rule insert_1_again)
  have commit: "session_commit table_lib ?e ?mid = (Inr (), two_rows)"
    by (simp add: table_lib_sel two_rows_def)
  have run_full: "execute_each full_disk_lib ?e ?q [[(''id'', Integer 1)], [(''id'', Integer 2)]] empty_table
      = (Inr (), ?mid)"
    by (rule insert_1_2_full_disk)
  have commit_full: "session_commit full_disk_lib ?e ?mid
      = (Inl (LibraryError ''OperationalError''), ?mid)"
    by (simp add: full_disk_lib_sel)
  have trans: "transactional table_lib ?e ?q empty_table"
    by (rule insert_transactional) (simp add: world_sel)
  have fails: "fst (execute_each table_lib ?e ?q
        [[(''id'', Integer 1)], [(''id'', Integer 2)], [(''id'', Integer 1)]] empty_table)
      = Inl (LibraryError ''IntegrityError'')"
    by (rule insert_1_2_1)
  have c1: "execute_many table_lib file_client ?q
        [[(''id'', Integer 1)], [(''id'', Integer 2)], [(''id'', Integer 1)]] empty_table
      = (Inl (LibraryError ''IntegrityError''), empty_table)"
    using execute_many_one_session [of "[[(''id'', Integer 1)], [(''id'', Integer 2)], [(''id'', Integer 1)]]"
                 "[[(''id'', Integer 1)], [(''id'', Integer 2)]]" "[(''id'', Integer 1)]" "[]"
                 table_lib file_client ?q empty_table ?mid "LibraryError ''IntegrityError''" ?mid]
      trans fails by blast
  have c2: "execute_many table_lib file_client ?q
        [[(''id'', Integer 1)], [(''id'', Integer 2)]] empty_table = (Inr (), two_rows)"
    using execute_many_one_session [of "[[(''id'', Integer 1)], [(''id'', Integer 2)]]" "[]" "[]" "[]"
                 table_lib file_client ?q empty_table ?mid "LibraryError ''IntegrityError''" two_rows]
      run commit by (simp add: table_lib_sel two_rows_def)
  have c3: "execute_many full_disk_lib file_client ?q
        [[(''id'', Integer 1)], [(''id'', Integer 2)]] empty_table
      = (Inl (LibraryError ''OperationalError''), empty_table)"
    using execute_many_one_session [of "[[(''id'', Integer 1)], [(''id'', Integer 2)]]" "[]" "[]" "[]"
                 full_disk_lib file_client ?q empty_table ?mid "LibraryError ''OperationalError''" ?mid]
      run_full commit_full by (simp add: full_disk_lib_sel empty_table_def)
  show ?thesis
    using split run dup commit run_full commit_full trans fails c1 c2 c3 by simp
qed

text \<open>
  The claim itself fails for a statement the driver commits as it runs.  On a database
  without the table, \<open>CREATE TABLE\<close> run twice creates the table, raises at the
  second run, and the table is still there after the rollback.
\<close>

theorem execute_many_create_table_not_undone:
  "execute_many table_lib file_client ''CREATE TABLE t (id INTEGER PRIMARY KEY)'' [[], []] no_table
     = (Inl (LibraryError ''OperationalError''), empty_table)
   \<and> empty_table \<noteq> no_table"
  by (simp add: execute_many_def get_session_def table_lib_sel table_create
        no_table_def empty_table_def no_rows_def)

lemma file_dispose:
  "dispose table_lib (engine file_client) w
     = (\<lparr>engine_url = ''sqlite:///app.db'', engine_echo = False, idle_connections = 0\<rparr>, w)"
  by (simp add: table_lib_sel table_dispose_def file_client_def)

lemma file_close:
  "close table_lib file_client w
     = (file_client\<lparr>engine := \<lparr>engine_url = ''sqlite:///app.db'', engine_echo = False,
                                  idle_connections = 0\<rparr>\<rparr>, w)"
  by (simp add: close_def file_dispose)

text \<open>
  C2, as the code has it.  \<open>close\<close> calls \<open>dispose\<close> on the engine and records nothing
  on the client, and no method checks for a closed client.  When the database outlives
  the connections that \<open>dispose\<close> closes, and a session runs on the disposed engine as
  it does on the engine before, \<open>execute_query\<close> and \<open>execute_many\<close> after \<open>close\<close>
  return what they return before it, with the same effect on the database.
\<close>

theorem close_leaves_client_usable:
  assumes "snd (dispose lib (engine self) w) = w"
    and "\<forall>query params w0.
           session_execute lib (fst (dispose lib (engine self) w)) query params w0
             = session_execute lib (engine self) query params w0"
    and "\<forall>w0. session_commit lib (fst (dispose lib (engine self) w)) w0
             = session_commit lib (engine self) w0"
    and "\<forall>w0. session_rollback lib (fst (dispose lib (engine self) w)) w0
             = session_rollback lib (engine self) w0"
    and "\<forall>w0. session_close lib (fst (dispose lib (engine self) w)) w0
             = session_close lib (engine self) w0"
  shows "execute_query lib (fst (close lib self w)) query params (snd (close lib self w))
           = execute_query lib self query params w
       \<and> execute_many lib (fst (close lib self w)) query params_list (snd (close lib self w))
           = execute_many lib self query params_list w"
proof -
  obtain eng1 w1 where d: "dispose lib (engine self) w = (eng1, w1)"
    by (cases "dispose lib (engine self) w")
  have w1: "w1 = w"
    using assms(1) d by simp
  have c: "close lib self w = (self\<lparr>engine := eng1\<rparr>, w)"
    using d w1 by (simp add: close_def)
  have e: "execute_each lib eng1 query params_list w = execute_each lib (engine self) query params_list w"
    using assms(2) d by (intro execute_each_engine) simp
  show ?thesis
    using assms(2-5) d e unfolding c
    by (simp add: execute_query_def execute_many_def get_session_def
          split: sum.splits prod.splits)
qed

theorem close_leaves_client_usable_witness:
  "snd (dispose table_lib (engine file_client) two_rows) = two_rows
   \<and> (\<forall>query params w0.
         session_execute table_lib (fst (dispose table_lib (engine file_client) two_rows)) query params w0
           = session_execute table_lib (engine file_client) query params w0)
   \<and> (\<forall>w0. session_commit table_lib (fst (dispose table_lib (engine file_client) two_rows)) w0
           = session_commit table_lib (engine file_client) w0)
   \<and> (\<forall>w0. session_rollback table_lib (fst (dispose table_lib (engine file_client) two_rows)) w0
           = session_rollback table_lib (engine file_client) w0)
   \<and> (\<forall>w0. session_close table_lib (fst (dispose table_lib (engine file_client) two_rows)) w0
           = session_close table_lib (engine file_client) w0)
   \<and> execute_query table_lib (fst (close table_lib file_client two_rows))
        ''SELECT 1 FROM t WHERE id = :value LIMIT 1'' (Some [(''value'', Integer 1)])
        (snd (close table_lib file_client two_rows))
      = execute_query table_lib file_client
        ''SELECT 1 FROM t WHERE id = :value LIMIT 1'' (Some [(''value'', Integer 1)]) two_rows
   \<and> execute_many table_lib (fst (close table_lib file_client two_rows))
        ''INSERT INTO t (id) VALUES (:id)'' [[(''id'', Integer 3)]]
        (snd (close table_lib file_client two_rows))
      = execute_many table_lib file_client
        ''INSERT INTO t (id) VALUES (:id)'' [[(''id'', Integer 3)]] two_rows"
proof -
  have h1: "snd (dispose table_lib (engine file_client) two_rows) = two_rows"
    by (simp add: file_dispose)
  have h2: "\<forall>query params w0.
         session_execute table_lib (fst (dispose table_lib (engine file_client) two_rows)) query params w0
           = session_execute table_lib (engine file_client) query params w0"
    by (simp add: table_lib_sel table_execute_def)
  have h3: "\<forall>w0. session_commit table_lib (fst (dispose table_lib (engine file_client) two_rows)) w0
           = session_commit table_lib (engine file_client) w0"
    by (simp add: table_lib_sel)
  have h4: "\<forall>w0. session_rollback table_lib (fst (dispose table_lib (engine file_client) two_rows)) w0
           = session_rollback table_lib (engine file_client) w0"
    by (simp add: table_lib_sel)
  have h5: "\<forall>w0. session_close table_lib (fst (dispose table_lib (engine file_client) two_rows)) w0
           = session_close table_lib (engine file_client) w0"
    by (simp add: table_lib_sel)
  show ?thesis
    using h1 h2 h3 h4 h5 close_leaves_client_usable [OF h1 h2 h3 h4 h5] by blast
qed

text \<open>
  The claim itself fails on a database file: after \<open>close\<close>, a query returns its row
  and a batch insert is committed.
\<close>

theorem execute_after_close_succeeds:
  "execute_query table_lib (fst (close table_lib file_client two_rows))
      ''SELECT 1 FROM t WHERE id = :value LIMIT 1'' (Some [(''value'', Integer 1)])
      (snd (close table_lib file_client two_rows))
     = (Inr \<lparr>returns_rows = True, result_keys = [''1''], result_rows = [[Integer 1]]\<rparr>, two_rows)
   \<and> execute_many table_lib (fst (close table_lib file_client two_rows))
      ''INSERT INTO t (id) VALUES (:id)'' [[(''id'', Integer 3)]]
      (snd (close table_lib file_client two_rows))
     = (Inr (), \<lparr>stored = Some [1, 2, 3], current = Some [1, 2, 3]\<rparr>)"
  by (simp add: file_close execute_query_def execute_many_def get_session_def table_lib_sel
        table_select_one table_insert_new two_rows_def)

text \<open>
  The in-memory database is the case the first hypothesis leaves out: it goes with its
  connection, and the query that returned a row before \<open>close\<close> raises after it.
\<close>

lemma close_loses_memory_database:
  "execute_query table_lib memory_client
      ''SELECT 1 FROM t WHERE id = :value LIMIT 1'' (Some [(''value'', Integer 1)]) two_rows
     = (Inr \<lparr>returns_rows = True, result_keys = [''1''], result_rows = [[Integer 1]]\<rparr>, two_rows)
   \<and> execute_query table_lib (fst (close table_lib memory_client two_rows))
      ''SELECT 1 FROM t WHERE id = :value LIMIT 1'' (Some [(''value'', Integer 1)])
      (snd (close table_lib memory_client two_rows))
     = (Inl (LibraryError ''OperationalError''), no_table)"
  by (simp add: close_def execute_query_def get_session_def table_lib_sel table_dispose_def
        table_select_one table_execute_def memory_client_def two_rows_def no_table_def)

section \<open>Properties of a client under a history of calls\<close>

lemma build_with_echo: "build_connection_url (with_echo b c) = build_connection_url c"
  by (cases c)
     (simp_all add: SQLServerClient_build_connection_url_def sqlserver_params_def Let_def
        PostgreSQLClient_build_connection_url_def MySQLClient_build_connection_url_def
        SQLiteClient_build_connection_url_def)

lemma call_method_attrs:
  "attrs (fst (snd (call_method lib c st))) = attrs (fst st)"
  by (cases st; cases c) (simp_all add: close_def split: prod.splits)

lemma call_methods_attrs:
  "attrs (fst (snd (call_methods lib cs st))) = attrs (fst st)"
proof (induction cs arbitrary: st)
  case Nil
  show ?case by simp
next
  case (Cons c cs)
  obtain r st1 where s1: "call_method lib c st = (r, st1)"
    by (cases "call_method lib c st")
  obtain rs st2 where s2: "call_methods lib cs st1 = (rs, st2)"
    by (cases "call_methods lib cs st1")
  have "attrs (fst st2) = attrs (fst st1)"
    using Cons.IH [of st1] s2 by simp
  moreover have "attrs (fst st1) = attrs (fst st)"
    using call_method_attrs [of lib c st] s1 by simp
  ultimately show ?case
    using s1 s2 by simp
qed

lemma build_after_calls:
  "fst (call_method lib BuildConnectionUrl (snd (call_methods lib cs (self, w))))
     = Url (build_connection_url (attrs self))"
proof -
  obtain self1 w1 where s: "snd (call_methods lib cs (self, w)) = (self1, w1)"
    by (cases "snd (call_methods lib cs (self, w))")
  have "attrs self1 = attrs self"
    using call_methods_attrs [of lib cs "(self, w)"] s by simp
  then show ?thesis
    using s by simp
qed

text \<open>
  C6.  For each of the four typed backends the builder returns the same URL for the same
  configuration, whatever was called on the client before (queries, batches, \<open>close\<close>,
  the builder itself), whatever the engine and the database are, and whichever library
  serves the calls: the URL is the one the builder gives on the attributes alone, two
  clients whose configurations are equal, or differ only in the logging flag \<open>echo\<close>,
  get the same URL after any two histories, and the call changes neither the client nor
  the world.
\<close>

theorem build_connection_url_independent_of_history:
  assumes "attrs self1 = attrs self2
           \<or> with_echo False (attrs self1) = with_echo False (attrs self2)"
  shows "fst (call_method lib1 BuildConnectionUrl (snd (call_methods lib1 history1 (self1, w1))))
           = Url (build_connection_url (attrs self1))
       \<and> fst (call_method lib1 BuildConnectionUrl (snd (call_methods lib1 history1 (self1, w1))))
           = fst (call_method lib2 BuildConnectionUrl (snd (call_methods lib2 history2 (self2, w2))))
       \<and> snd (call_method lib1 BuildConnectionUrl (self1, w1)) = (self1, w1)"
proof -
  have "build_connection_url (attrs self1) = build_connection_url (attrs self2)"
    using assms build_with_echo [of False "attrs self1"] build_with_echo [of False "attrs self2"]
    by auto
  then show ?thesis
    by (simp add: build_after_calls)
qed

theorem build_connection_url_independent_of_history_witness:
  "(attrs typed_file_client = attrs typed_file_client_echo
      \<or> with_echo False (attrs typed_file_client) = with_echo False (attrs typed_file_client_echo))
   \<and> fst (call_method table_lib BuildConnectionUrl
        (snd (call_methods table_lib
           [ExecuteQuery ''SELECT 1 FROM t WHERE id = :value LIMIT 1'' (Some [(''value'', Integer 1)]),
            Close, BuildConnectionUrl,
            ExecuteMany ''INSERT INTO t (id) VALUES (:id)'' [[(''id'', Integer 3)]]]
           (typed_file_client, two_rows))))
       = Url ''sqlite:///app.db''
   \<and> fst (call_method full_disk_lib BuildConnectionUrl
        (snd (call_methods full_disk_lib [] (typed_file_client_echo, no_table))))
       = Url ''sqlite:///app.db''"
proof -
  have h: "attrs typed_file_client = attrs typed_file_client_echo
      \<or> with_echo False (attrs typed_file_client) = with_echo False (attrs typed_file_client_echo)"
    by (simp add: typed_file_client_def typed_file_client_echo_def)
  have u: "build_connection_url (attrs typed_file_client) = ''sqlite:///app.db''"
    by (simp add: typed_file_client_def SQLiteClient_build_connection_url_def)
  show ?thesis
    using h u
      build_connection_url_independent_of_history [OF h, of table_lib
           "[ExecuteQuery ''SELECT 1 FROM t WHERE id = :value LIMIT 1'' (Some [(''value'', Integer 1)]),
             Close, BuildConnectionUrl,
             ExecuteMany ''INSERT INTO t (id) VALUES (:id)'' [[(''id'', Integer 3)]]]"
           two_rows full_disk_lib "[]" no_table]
    by metis
qed

section \<open>Properties of the explorer\<close>



end
